theory Spec2Isabelle
  imports Complex_Main
begin

section \<open>JavaScript numbers: IEEE 754 binary64, round to nearest, ties to even\<close>

text \<open>
  A JavaScript Number is a double.  A finite non-zero double is kept as the rational it
  denotes (\<open>Fin q\<close>); \<open>Fin 0\<close> is \<open>+0\<close>, and \<open>-0\<close>, the infinities and NaN are
  separate constructors.  Every arithmetic operation computes the exact rational result
  and rounds it with \<open>round_mag\<close>: 53 significant bits, exponents from \<open>-1022\<close> to
  \<open>1023\<close>, gradual underflow, overflow to infinity.
\<close>

datatype number = NaN | PosInf | NegInf | NegZero | Fin rat

function bit_count :: "int \<Rightarrow> int \<Rightarrow> int" where
  \<comment> \<open>\<open>k\<close> plus the number of binary digits of \<open>n\<close>\<close>
  "bit_count n k = (if n \<le> 0 then k else bit_count (n div 2) (k + 1))"
  by pat_completeness auto

termination
  by (relation "measure (\<lambda>(n, k). nat n)") auto

declare bit_count.simps [simp del]

definition pow2 :: "int \<Rightarrow> rat" where
  "pow2 e = (if 0 \<le> e then 2 ^ nat e else 1 / 2 ^ nat (- e))"

definition ilog2 :: "rat \<Rightarrow> int" where
  \<comment> \<open>for \<open>0 < a\<close>: the integer \<open>e\<close> with \<open>2 ^ e \<le> a < 2 ^ (e + 1)\<close>\<close>
  "ilog2 a = (if 1 \<le> a then bit_count \<lfloor>a\<rfloor> 0 - 1 else - bit_count (\<lceil>1 / a\<rceil> - 1) 0)"

definition half_even :: "rat \<Rightarrow> int \<Rightarrow> int" where
  \<comment> \<open>\<open>f\<close> or \<open>f + 1\<close>, whichever is nearer to \<open>a\<close>; the even one when both are as near\<close>
  "half_even a f =
     (if a - of_int f < 1 / 2 then f
      else if 1 / 2 < a - of_int f then f + 1
      else if even f then f else f + 1)"

definition round_half_even :: "rat \<Rightarrow> int" where
  "round_half_even a = half_even a \<lfloor>a\<rfloor>"

definition signed_inf :: "bool \<Rightarrow> number" where
  "signed_inf neg = (if neg then NegInf else PosInf)"

definition signed_zero :: "bool \<Rightarrow> number" where
  "signed_zero neg = (if neg then NegZero else Fin 0)"

definition quantum :: "rat \<Rightarrow> rat" where
  \<comment> \<open>the spacing of the doubles around \<open>a\<close>: 53 significant bits, and \<open>2 ^ - 1074\<close>
      below the normal range\<close>
  "quantum a = (if a < pow2 (- 1022) then pow2 (- 1074) else pow2 (ilog2 a - 52))"

definition to_multiple :: "rat \<Rightarrow> rat \<Rightarrow> rat" where
  "to_multiple a u = of_int (round_half_even (a / u)) * u"

definition in_range :: "bool \<Rightarrow> rat \<Rightarrow> number" where
  "in_range neg m =
     (if 2 ^ 1024 \<le> m then signed_inf neg
      else if m = 0 then signed_zero neg
      else Fin (if neg then - m else m))"

definition round_mag :: "bool \<Rightarrow> rat \<Rightarrow> number" where
  \<comment> \<open>the double nearest to the magnitude \<open>a \<ge> 0\<close>, with the sign \<open>neg\<close>\<close>
  "round_mag neg a =
     (if a = 0 then signed_zero neg
      else if 2 ^ 1024 \<le> a then signed_inf neg
      else in_range neg (to_multiple a (quantum a)))"

definition is_neg :: "number \<Rightarrow> bool" where
  "is_neg x = (case x of NegInf \<Rightarrow> True | NegZero \<Rightarrow> True | Fin q \<Rightarrow> q < 0 | _ \<Rightarrow> False)"

definition val :: "number \<Rightarrow> rat" where
  "val x = (case x of Fin q \<Rightarrow> q | _ \<Rightarrow> 0)"

definition is_zero :: "number \<Rightarrow> bool" where
  "is_zero x = (x = Fin 0 \<or> x = NegZero)"

definition is_inf :: "number \<Rightarrow> bool" where
  "is_inf x = (x = PosInf \<or> x = NegInf)"

definition fl_add :: "number \<Rightarrow> number \<Rightarrow> number" where
  \<comment> \<open>\<open>x + y\<close>\<close>
  "fl_add x y =
     (if x = NaN \<or> y = NaN then NaN
      else if is_inf x then (if is_inf y \<and> x \<noteq> y then NaN else x)
      else if is_inf y then y
      else let q = val x + val y
           in if q = 0 then signed_zero (is_neg x \<and> is_neg y)
              else round_mag (q < 0) \<bar>q\<bar>)"

definition fl_mul :: "number \<Rightarrow> number \<Rightarrow> number" where
  \<comment> \<open>\<open>x * y\<close>\<close>
  "fl_mul x y =
     (if x = NaN \<or> y = NaN then NaN
      else if is_inf x \<or> is_inf y
        then (if is_zero x \<or> is_zero y then NaN else signed_inf (is_neg x \<noteq> is_neg y))
      else round_mag (is_neg x \<noteq> is_neg y) \<bar>val x * val y\<bar>)"

definition fl_div :: "number \<Rightarrow> number \<Rightarrow> number" where
  \<comment> \<open>\<open>x / y\<close>\<close>
  "fl_div x y =
     (if x = NaN \<or> y = NaN then NaN
      else if is_inf x then (if is_inf y then NaN else signed_inf (is_neg x \<noteq> is_neg y))
      else if is_inf y then signed_zero (is_neg x \<noteq> is_neg y)
      else if is_zero y then (if is_zero x then NaN else signed_inf (is_neg x \<noteq> is_neg y))
      else round_mag (is_neg x \<noteq> is_neg y) \<bar>val x / val y\<bar>)"

definition isqrt_step :: "int \<Rightarrow> int \<Rightarrow> int" where
  "isqrt_step n r = (if (r + 1) * (r + 1) \<le> n then r + 1 else r)"

function isqrt :: "int \<Rightarrow> int" where
  \<comment> \<open>the integer square root, two bits of \<open>n\<close> for each bit of the root\<close>
  "isqrt n = (if n < 2 then n else isqrt_step n (2 * isqrt (n div 4)))"
  by pat_completeness auto

termination
  by (relation "measure nat") auto

declare isqrt.simps [simp del]

definition nearest_root :: "rat \<Rightarrow> int \<Rightarrow> int" where
  \<comment> \<open>\<open>f\<close> or \<open>f + 1\<close>, whichever is nearer to the square root of \<open>t\<close>, given that \<open>f\<close>
      is that root rounded down\<close>
  "nearest_root t f =
     (if t < (of_int f + 1 / 2) * (of_int f + 1 / 2) then f
      else if (of_int f + 1 / 2) * (of_int f + 1 / 2) < t then f + 1
      else if even f then f else f + 1)"

definition root_multiple :: "rat \<Rightarrow> rat \<Rightarrow> rat" where
  "root_multiple t u = of_int (nearest_root t (isqrt \<lfloor>t\<rfloor>)) * u"

definition root_with :: "rat \<Rightarrow> rat \<Rightarrow> rat" where
  "root_with q u = root_multiple (q / (u * u)) u"

definition sqrt_mag :: "rat \<Rightarrow> rat" where
  \<comment> \<open>for \<open>0 < q\<close>: the multiple of \<open>2 ^ (e - 52)\<close> nearest to the square root of \<open>q\<close>,
      where \<open>2 ^ e\<close> is the power of two at or below that root\<close>
  "sqrt_mag q = root_with q (pow2 (ilog2 q div 2 - 52))"

definition fl_sqrt :: "number \<Rightarrow> number" where
  \<comment> \<open>\<open>Math.sqrt(x)\<close>\<close>
  "fl_sqrt x = (case x of
       NaN \<Rightarrow> NaN
     | PosInf \<Rightarrow> PosInf
     | NegInf \<Rightarrow> NaN
     | NegZero \<Rightarrow> NegZero
     | Fin q \<Rightarrow> if q < 0 then NaN else if q = 0 then Fin 0 else Fin (sqrt_mag q))"

definition num_eq :: "number \<Rightarrow> number \<Rightarrow> bool" where
  \<comment> \<open>\<open>x === y\<close> on numbers: NaN equals nothing, \<open>+0\<close> equals \<open>-0\<close>\<close>
  "num_eq x y = (x \<noteq> NaN \<and> y \<noteq> NaN \<and> (x = y \<or> (is_zero x \<and> is_zero y)))"


section \<open>Number to string\<close>

text \<open>
  \<open>String(x)\<close> on a number: the shortest decimal digit string that reads back as the
  same double (at most 17 digits are ever needed), laid out in plain or exponent
  notation by the position \<open>n\<close> of the decimal point.
\<close>

function digit_count :: "int \<Rightarrow> int \<Rightarrow> int" where
  \<comment> \<open>\<open>k\<close> plus the number of decimal digits of \<open>n\<close>\<close>
  "digit_count n k = (if n \<le> 0 then k else digit_count (n div 10) (k + 1))"
  by pat_completeness auto

termination
  by (relation "measure (\<lambda>(n, k). nat n)") auto

declare digit_count.simps [simp del]

definition pow10 :: "int \<Rightarrow> rat" where
  "pow10 e = (if 0 \<le> e then 10 ^ nat e else 1 / 10 ^ nat (- e))"

definition ilog10 :: "rat \<Rightarrow> int" where
  \<comment> \<open>for \<open>0 < a\<close>: the integer \<open>e\<close> with \<open>10 ^ e \<le> a < 10 ^ (e + 1)\<close>\<close>
  "ilog10 a = (if 1 \<le> a then digit_count \<lfloor>a\<rfloor> 0 - 1 else - digit_count (\<lceil>1 / a\<rceil> - 1) 0)"

fun show_nat :: "nat \<Rightarrow> string" where
  "show_nat n = (if n < 10 then [''0123456789'' ! n]
                 else show_nat (n div 10) @ [''0123456789'' ! (n mod 10)])"

declare show_nat.simps [simp del]

function shortest_digits :: "rat \<Rightarrow> int \<Rightarrow> nat \<Rightarrow> nat \<times> int" where
  "shortest_digits q n k =
     (let sc = pow10 (n - int k);
          lo = \<lfloor>q / sc\<rfloor>;
          hi = lo + 1;
          ok_lo = (round_mag False (of_int lo * sc) = Fin q);
          ok_hi = (round_mag False (of_int hi * sc) = Fin q);
          dl = q - of_int lo * sc;
          dh = of_int hi * sc - q;
          pick_lo = (dl < dh \<or> (dl = dh \<and> even lo));
          s = (if ok_lo \<and> (\<not> ok_hi \<or> pick_lo) then lo
               else if ok_hi then hi
               else if pick_lo then lo else hi)
      in if ok_lo \<or> ok_hi \<or> 17 \<le> k
         then (if s = 10 ^ k then (1, n + 1) else (nat s, n))
         else shortest_digits q n (Suc k))"
  by pat_completeness auto

termination
  by (relation "measure (\<lambda>(q, n, k). 17 - k)") auto

declare shortest_digits.simps [simp del]

definition format_decimal :: "string \<Rightarrow> int \<Rightarrow> string" where
  "format_decimal ds n =
     (let k = int (length ds)
      in if k \<le> n \<and> n \<le> 21 then ds @ replicate (nat (n - k)) (CHR ''0'')
         else if 0 < n \<and> n \<le> 21 then take (nat n) ds @ ''.'' @ drop (nat n) ds
         else if - 6 < n \<and> n \<le> 0 then ''0.'' @ replicate (nat (- n)) (CHR ''0'') @ ds
         else let e = n - 1;
                  es = (if e < 0 then ''-'' else ''+'') @ show_nat (nat \<bar>e\<bar>)
              in if k = 1 then ds @ ''e'' @ es
                 else take 1 ds @ ''.'' @ drop 1 ds @ ''e'' @ es)"

definition positive_to_string :: "rat \<Rightarrow> string" where
  "positive_to_string q =
     (case shortest_digits q (ilog10 q + 1) 1 of (s, n) \<Rightarrow> format_decimal (show_nat s) n)"

definition NumberToString :: "number \<Rightarrow> string" where
  "NumberToString x = (case x of
       NaN \<Rightarrow> ''NaN''
     | PosInf \<Rightarrow> ''Infinity''
     | NegInf \<Rightarrow> ''-Infinity''
     | NegZero \<Rightarrow> ''0''
     | Fin q \<Rightarrow> if q = 0 then ''0''
                else if q < 0 then ''-'' @ positive_to_string (- q)
                else positive_to_string q)"

section \<open>JavaScript values\<close>

text \<open>
  The values the code handles: parsed JSON bodies, records and their fields.  An object
  is the list of its own properties in enumeration order.
\<close>

datatype jsval =
    Undefined
  | Null
  | Bool bool
  | Num number
  | Str string
  | Arr "jsval list"
  | Obj "(string \<times> jsval) list"

datatype js_error = Error string | TypeError | SyntaxError

definition truthy :: "jsval \<Rightarrow> bool" where
  "truthy v = (case v of
       Undefined \<Rightarrow> False
     | Null \<Rightarrow> False
     | Bool b \<Rightarrow> b
     | Num n \<Rightarrow> \<not> (is_zero n \<or> n = NaN)
     | Str s \<Rightarrow> s \<noteq> []
     | _ \<Rightarrow> True)"

definition nullish :: "jsval \<Rightarrow> bool" where
  "nullish v = (v = Undefined \<or> v = Null)"

definition own :: "(string \<times> jsval) list \<Rightarrow> string \<Rightarrow> jsval" where
  "own kvs k = (case map_of kvs k of Some v \<Rightarrow> v | None \<Rightarrow> Undefined)"

definition get_prop :: "jsval \<Rightarrow> string \<Rightarrow> js_error + jsval" where
  \<comment> \<open>\<open>v.k\<close>, for the property names the code reads (none of them is defined on a
      built-in prototype, except \<open>length\<close> on strings and arrays)\<close>
  "get_prop v k = (case v of
       Undefined \<Rightarrow> Inl TypeError
     | Null \<Rightarrow> Inl TypeError
     | Obj kvs \<Rightarrow> Inr (own kvs k)
     | Arr xs \<Rightarrow> Inr (if k = ''length'' then Num (Fin (of_nat (length xs))) else Undefined)
     | Str s \<Rightarrow> Inr (if k = ''length'' then Num (Fin (of_nat (length s))) else Undefined)
     | _ \<Rightarrow> Inr Undefined)"

definition get_opt_prop :: "jsval \<Rightarrow> string \<Rightarrow> js_error + jsval" where
  \<comment> \<open>\<open>v?.k\<close>\<close>
  "get_opt_prop v k = (if nullish v then Inr Undefined else get_prop v k)"

definition get_index :: "jsval \<Rightarrow> nat \<Rightarrow> js_error + jsval" where
  \<comment> \<open>\<open>v[i]\<close>\<close>
  "get_index v i = (case v of
       Undefined \<Rightarrow> Inl TypeError
     | Null \<Rightarrow> Inl TypeError
     | Obj kvs \<Rightarrow> Inr (own kvs (show_nat i))
     | Arr xs \<Rightarrow> Inr (if i < length xs then xs ! i else Undefined)
     | Str s \<Rightarrow> Inr (if i < length s then Str [s ! i] else Undefined)
     | _ \<Rightarrow> Inr Undefined)"

definition strict_eq_num :: "jsval \<Rightarrow> number \<Rightarrow> bool" where
  \<comment> \<open>\<open>v === n\<close> for a number \<open>n\<close>\<close>
  "strict_eq_num v n = (case v of Num m \<Rightarrow> num_eq m n | _ \<Rightarrow> False)"

fun ToString :: "jsval \<Rightarrow> js_error + string"
  and ArrayJoin :: "jsval list \<Rightarrow> js_error + string" where
  "ToString Undefined = Inr ''undefined''"
| "ToString Null = Inr ''null''"
| "ToString (Bool b) = Inr (if b then ''true'' else ''false'')"
| "ToString (Num n) = Inr (NumberToString n)"
| "ToString (Str s) = Inr s"
| "ToString (Arr xs) = ArrayJoin xs"
| "ToString (Obj kvs) =
     (if ''toString'' \<in> set (map fst kvs) then Inl TypeError else Inr ''[object Object]'')"
| "ArrayJoin [] = Inr []"
| "ArrayJoin (x # xs) =
     (case (if x = Undefined \<or> x = Null then Inr [] else ToString x) of
        Inl e \<Rightarrow> Inl e
      | Inr s \<Rightarrow>
          if xs = [] then Inr s
          else (case ArrayJoin xs of Inl e \<Rightarrow> Inl e | Inr r \<Rightarrow> Inr (s @ '','' @ r)))"

definition throw_new_Error :: "jsval \<Rightarrow> js_error + 'a" where
  \<comment> \<open>\<open>throw new Error(m)\<close>: the message is the string conversion of \<open>m\<close>\<close>
  "throw_new_Error m =
     (if m = Undefined then Inl (Error [])
      else case ToString m of Inl e \<Rightarrow> Inl e | Inr s \<Rightarrow> Inl (Error s))"

section \<open>The pack: \<open>src/pack.ts\<close>\<close>

subsection \<open>FormatEmbedding\<close>

definition empty_record :: "string \<Rightarrow> jsval" where
  \<comment> \<open>the record both fallback branches return, up to the \<open>formatted\<close> label\<close>
  "empty_record label = Obj
     [(''id'', Str []),
      (''input'', Str []),
      (''embedding'', Arr []),
      (''formatted'', Str label),
      (''model'', Str []),
      (''prompt_tokens'', Num (Fin 0)),
      (''total_tokens'', Num (Fin 0))]"

definition FormatEmbedding ::
  "(string \<Rightarrow> js_error + jsval) \<Rightarrow> string option \<Rightarrow> js_error + jsval" where
  \<comment> \<open>\<open>JSON_parse\<close> stands for the built-in \<open>JSON.parse\<close>, which returns a value or
      throws; the argument is the string parameter, \<open>None\<close> when it is absent\<close>
  "FormatEmbedding JSON_parse embeddingRecordStr =
     (case embeddingRecordStr of
        None \<Rightarrow> Inr (empty_record ''No data'')
      | Some str \<Rightarrow>
          if str = [] then Inr (empty_record ''No data'')
          else (case JSON_parse str of
                  Inr embeddingRecord \<Rightarrow> Inr embeddingRecord
                | Inl e \<Rightarrow> Inr (empty_record ''Invalid embedding record JSON'')))"

subsection \<open>generateEmbedding\<close>

record fetch_request =
  http_method :: string
  url :: string
  headers :: "(string \<times> string) list"
  body :: string

record fetch_response =
  status :: int
  response_body :: jsval

record execution_context =
  fetcher :: "fetch_request \<Rightarrow> js_error + fetch_response"

definition embeddings_request :: "(jsval \<Rightarrow> string) \<Rightarrow> string \<Rightarrow> string \<Rightarrow> fetch_request" where
  "embeddings_request JSON_stringify text model =
     \<lparr>http_method = ''POST'',
      url = ''https://api.openai.com/v1/embeddings'',
      headers = [(''Content-Type'', ''application/json'')],
      body = JSON_stringify (Obj [(''input'', Str text), (''model'', Str model)])\<rparr>"

definition or_else :: "jsval \<Rightarrow> jsval \<Rightarrow> jsval" where
  \<comment> \<open>\<open>a || b\<close>\<close>
  "or_else a b = (if truthy a then a else b)"

definition usage_figure :: "jsval \<Rightarrow> string \<Rightarrow> js_error + jsval" where
  \<comment> \<open>\<open>data.usage?.k || 0\<close>\<close>
  "usage_figure data k =
     (case get_prop data ''usage'' of
        Inl e \<Rightarrow> Inl e
      | Inr usage \<Rightarrow>
          (case get_opt_prop usage k of
             Inl e \<Rightarrow> Inl e
           | Inr n \<Rightarrow> Inr (or_else n (Num (Fin 0)))))"

definition none_returned :: "jsval \<Rightarrow> js_error + bool" where
  \<comment> \<open>\<open>!results || results.length === 0\<close>\<close>
  "none_returned results =
     (if \<not> truthy results then Inr True
      else (case get_prop results ''length'' of
              Inl e \<Rightarrow> Inl e
            | Inr len \<Rightarrow> Inr (strict_eq_num len (Fin 0))))"

definition build_record :: "string \<Rightarrow> jsval \<Rightarrow> jsval \<Rightarrow> jsval \<Rightarrow> jsval \<Rightarrow> js_error + jsval" where
  \<comment> \<open>the object literal returned at the end, its properties evaluated in order\<close>
  "build_record text data embeddingObj promptTokens totalTokens =
     (case get_prop embeddingObj ''index'' of
        Inl e \<Rightarrow> Inl e
      | Inr index \<Rightarrow>
     (case ToString index of
        Inl e \<Rightarrow> Inl e
      | Inr ident \<Rightarrow>
     (case get_prop embeddingObj ''embedding'' of
        Inl e \<Rightarrow> Inl e
      | Inr embedding \<Rightarrow>
     (case get_prop data ''model'' of
        Inl e \<Rightarrow> Inl e
      | Inr model \<Rightarrow>
          Inr (Obj
            [(''id'', Str ident),
             (''input'', Str text),
             (''embedding'', embedding),
             (''formatted'', Str ''Embedding Object''),
             (''model'', model),
             (''prompt_tokens'', promptTokens),
             (''total_tokens'', totalTokens)])))))"

definition generateEmbedding ::
  "(jsval \<Rightarrow> string) \<Rightarrow> string \<Rightarrow> string \<Rightarrow> execution_context \<Rightarrow> js_error + jsval" where
  \<comment> \<open>\<open>JSON_stringify\<close> stands for the built-in \<open>JSON.stringify\<close>\<close>
  "generateEmbedding JSON_stringify text model ctx =
     (case fetcher ctx (embeddings_request JSON_stringify text model) of
        Inl e \<Rightarrow> Inl e
      | Inr response \<Rightarrow>
     (let data = response_body response in
      if status response \<noteq> 200 then
        (case get_prop data ''error'' of
           Inl e \<Rightarrow> Inl e
         | Inr err \<Rightarrow>
        (case get_opt_prop err ''message'' of
           Inl e \<Rightarrow> Inl e
         | Inr message \<Rightarrow>
             throw_new_Error (or_else message (Str ''Failed to generate embedding''))))
      else
        (case get_prop data ''data'' of
           Inl e \<Rightarrow> Inl e
         | Inr results \<Rightarrow>
        (case none_returned results of
           Inl e \<Rightarrow> Inl e
         | Inr none \<Rightarrow>
             if none then throw_new_Error (Str ''No embedding returned from OpenAI'')
             else
        (case get_index results 0 of
           Inl e \<Rightarrow> Inl e
         | Inr embeddingObj \<Rightarrow>
        (case usage_figure data ''prompt_tokens'' of
           Inl e \<Rightarrow> Inl e
         | Inr promptTokens \<Rightarrow>
        (case usage_figure data ''total_tokens'' of
           Inl e \<Rightarrow> Inl e
         | Inr totalTokens \<Rightarrow>
             build_record text data embeddingObj promptTokens totalTokens)))))))"

subsection \<open>GenerateEmbedding\<close>

definition GenerateEmbedding ::
  "(jsval \<Rightarrow> string) \<Rightarrow> string \<Rightarrow> string option \<Rightarrow> execution_context \<Rightarrow> js_error + string" where
  \<comment> \<open>the second argument is optional and defaults to the small model\<close>
  "GenerateEmbedding JSON_stringify text model_arg ctx =
     (let model = (case model_arg of None \<Rightarrow> ''text-embedding-3-small'' | Some m \<Rightarrow> m)
      in case generateEmbedding JSON_stringify text model ctx of
           Inl e \<Rightarrow> Inl e
         | Inr result \<Rightarrow> Inr (JSON_stringify result))"

subsection \<open>CosineSimilarity\<close>

definition accumulate ::
  "number list \<Rightarrow> number list \<Rightarrow> nat \<Rightarrow> number \<times> number \<times> number \<Rightarrow> number \<times> number \<times> number" where
  \<comment> \<open>the loop body at index \<open>i\<close>, on \<open>(dotProduct, normA, normB)\<close>\<close>
  "accumulate embeddingA embeddingB i acc =
     (case acc of (dotProduct, normA, normB) \<Rightarrow>
        (fl_add dotProduct (fl_mul (embeddingA ! i) (embeddingB ! i)),
         fl_add normA (fl_mul (embeddingA ! i) (embeddingA ! i)),
         fl_add normB (fl_mul (embeddingB ! i) (embeddingB ! i))))"

definition CosineSimilarity :: "number list \<Rightarrow> number list \<Rightarrow> js_error + number" where
  "CosineSimilarity embeddingA embeddingB =
     (if length embeddingA \<noteq> length embeddingB
      then Inl (Error ''Both embeddings must be of the same length.'')
      else (case fold (accumulate embeddingA embeddingB) [0 ..< length embeddingA]
                   (Fin 0, Fin 0, Fin 0) of
              (dotProduct, normA, normB) \<Rightarrow>
                if num_eq normA (Fin 0) \<or> num_eq normB (Fin 0) then Inr (Fin 0)
                else Inr (fl_div dotProduct (fl_mul (fl_sqrt normA) (fl_sqrt normB)))))"

text \<open>
  What the loop leaves in \<open>dotProduct\<close>, \<open>normA\<close> and \<open>normB\<close>, each as a fold of its
  own over the sequences, for stating the properties of the result.
\<close>

definition dot_product :: "number list \<Rightarrow> number list \<Rightarrow> number" where
  "dot_product a b = fold (\<lambda>(x, y) acc. fl_add acc (fl_mul x y)) (zip a b) (Fin 0)"

definition norm_squared :: "number list \<Rightarrow> number" where
  "norm_squared a = fold (\<lambda>x acc. fl_add acc (fl_mul x x)) a (Fin 0)"

section \<open>FormatEmbedding: fallbacks and pass-through\<close>

text \<open>
  The three branches of \<open>FormatEmbedding\<close>, for every behaviour of \<open>JSON.parse\<close>.
\<close>

lemma FormatEmbedding_absent:
  "FormatEmbedding JSON_parse None = Inr (empty_record ''No data'')"
  by (simp add: FormatEmbedding_def)

lemma FormatEmbedding_empty:
  "FormatEmbedding JSON_parse (Some []) = Inr (empty_record ''No data'')"
  by (simp add: FormatEmbedding_def)

lemma FormatEmbedding_invalid:
  "str \<noteq> [] \<Longrightarrow> JSON_parse str = Inl e \<Longrightarrow>
   FormatEmbedding JSON_parse (Some str) = Inr (empty_record ''Invalid embedding record JSON'')"
  by (simp add: FormatEmbedding_def)

lemma FormatEmbedding_parsed:
  "str \<noteq> [] \<Longrightarrow> JSON_parse str = Inr v \<Longrightarrow> FormatEmbedding JSON_parse (Some str) = Inr v"
  by (simp add: FormatEmbedding_def)

text \<open>
  C3. \<open>FormatEmbedding\<close> never raises: whatever \<open>JSON.parse\<close> does, the result is a
  value.  For an absent or empty input it is the record with \<open>id = ""\<close>, \<open>input = ""\<close>,
  \<open>embedding = []\<close>, \<open>formatted = "No data"\<close>, \<open>model = ""\<close>, \<open>prompt_tokens = 0\<close>,
  \<open>total_tokens = 0\<close>; for a non-empty input that \<open>JSON.parse\<close> rejects it is the same
  record with \<open>formatted = "Invalid embedding record JSON"\<close>.
\<close>

theorem FormatEmbedding_never_raises:
  "(\<exists>v. FormatEmbedding JSON_parse x = Inr v) \<and>
   (x = None \<or> x = Some [] \<longrightarrow>
      FormatEmbedding JSON_parse x = Inr (Obj
        [(''id'', Str []), (''input'', Str []), (''embedding'', Arr []),
         (''formatted'', Str ''No data''), (''model'', Str []),
         (''prompt_tokens'', Num (Fin 0)), (''total_tokens'', Num (Fin 0))])) \<and>
   (\<forall>str e. x = Some str \<and> str \<noteq> [] \<and> JSON_parse str = Inl e \<longrightarrow>
      FormatEmbedding JSON_parse x = Inr (Obj
        [(''id'', Str []), (''input'', Str []), (''embedding'', Arr []),
         (''formatted'', Str ''Invalid embedding record JSON''), (''model'', Str []),
         (''prompt_tokens'', Num (Fin 0)), (''total_tokens'', Num (Fin 0))]))"
proof (intro conjI allI impI)
  show "\<exists>v. FormatEmbedding JSON_parse x = Inr v"
    by (cases x; cases "JSON_parse (the x)") (simp_all add: FormatEmbedding_def)
next
  assume "x = None \<or> x = Some []"
  then show "FormatEmbedding JSON_parse x = Inr (Obj
        [(''id'', Str []), (''input'', Str []), (''embedding'', Arr []),
         (''formatted'', Str ''No data''), (''model'', Str []),
         (''prompt_tokens'', Num (Fin 0)), (''total_tokens'', Num (Fin 0))])"
    using FormatEmbedding_absent FormatEmbedding_empty by (auto simp: empty_record_def)
next
  fix str e
  assume "x = Some str \<and> str \<noteq> [] \<and> JSON_parse str = Inl e"
  then show "FormatEmbedding JSON_parse x = Inr (Obj
        [(''id'', Str []), (''input'', Str []), (''embedding'', Arr []),
         (''formatted'', Str ''Invalid embedding record JSON''), (''model'', Str []),
         (''prompt_tokens'', Num (Fin 0)), (''total_tokens'', Num (Fin 0))])"
    using FormatEmbedding_invalid [of str JSON_parse e] by (simp add: empty_record_def)
qed

theorem FormatEmbedding_never_raises_witness:
  "FormatEmbedding (\<lambda>s. if s = ''{}'' then Inr (Obj []) else Inl SyntaxError) None =
     Inr (Obj
        [(''id'', Str []), (''input'', Str []), (''embedding'', Arr []),
         (''formatted'', Str ''No data''), (''model'', Str []),
         (''prompt_tokens'', Num (Fin 0)), (''total_tokens'', Num (Fin 0))]) \<and>
   FormatEmbedding (\<lambda>s. if s = ''{}'' then Inr (Obj []) else Inl SyntaxError)
       (Some ''{not valid}'') =
     Inr (Obj
        [(''id'', Str []), (''input'', Str []), (''embedding'', Arr []),
         (''formatted'', Str ''Invalid embedding record JSON''), (''model'', Str []),
         (''prompt_tokens'', Num (Fin 0)), (''total_tokens'', Num (Fin 0))])"
  using FormatEmbedding_never_raises
          [of "\<lambda>s. if s = ''{}'' then Inr (Obj []) else Inl SyntaxError" None]
        FormatEmbedding_never_raises
          [of "\<lambda>s. if s = ''{}'' then Inr (Obj []) else Inl SyntaxError" "Some ''{not valid}''"]
  by simp

text \<open>
  C9. A non-empty input that \<open>JSON.parse\<close> accepts is returned as decoded, whatever
  its shape: no field is checked, added or replaced.
\<close>

theorem FormatEmbedding_passes_through:
  assumes "str \<noteq> []" and "JSON_parse str = Inr v"
  shows "FormatEmbedding JSON_parse (Some str) = Inr v"
  using assms by (rule FormatEmbedding_parsed)

theorem FormatEmbedding_passes_through_witness:
  "''{}'' \<noteq> [] \<and>
   (\<lambda>s. if s = ''{}'' then Inr (Obj []) else Inl SyntaxError) ''{}'' = Inr (Obj []) \<and>
   FormatEmbedding (\<lambda>s. if s = ''{}'' then Inr (Obj []) else Inl SyntaxError) (Some ''{}'') =
     Inr (Obj [])"
  using FormatEmbedding_passes_through
          [of "''{}''" "\<lambda>s. if s = ''{}'' then Inr (Obj []) else Inl SyntaxError" "Obj []"]
  by simp

section \<open>CosineSimilarity\<close>

text \<open>
  C5. Two sequences of different lengths: the result is the error "Both embeddings must
  be of the same length." and never a number.
\<close>

theorem CosineSimilarity_length_mismatch:
  assumes "length a \<noteq> length b"
  shows "CosineSimilarity a b = Inl (Error ''Both embeddings must be of the same length.'') \<and>
         (\<forall>r. CosineSimilarity a b \<noteq> Inr r)"
  using assms by (simp add: CosineSimilarity_def)

theorem CosineSimilarity_length_mismatch_witness:
  "length [Fin 1, Fin 2] \<noteq> length [Fin 1] \<and>
   CosineSimilarity [Fin 1, Fin 2] [Fin 1] =
     Inl (Error ''Both embeddings must be of the same length.'')"
  using CosineSimilarity_length_mismatch [of "[Fin 1, Fin 2]" "[Fin 1]"] by simp

section \<open>generateEmbedding\<close>

text \<open>
  Property reads on an object never fail, so with an object as body the only failures
  left are the two thrown errors and a first entry that cannot be read.
\<close>

lemma get_prop_Obj: "get_prop (Obj kvs) k = Inr (own kvs k)"
  by (simp add: get_prop_def)

lemma get_opt_prop_total: "\<exists>v. get_opt_prop x k = Inr v"
  by (cases x) (simp_all add: get_opt_prop_def get_prop_def nullish_def)

lemma get_opt_prop_Obj: "get_opt_prop (Obj kvs) k = Inr (own kvs k)"
  by (simp add: get_opt_prop_def get_prop_def nullish_def)

lemma get_opt_prop_Undefined: "get_opt_prop Undefined k = Inr Undefined"
  by (simp add: get_opt_prop_def nullish_def)

lemma usage_figure_total: "\<exists>n. usage_figure (Obj flds) k = Inr n"
  using get_opt_prop_total [of "own flds ''usage''" k]
  by (auto simp: usage_figure_def get_prop_Obj)

lemma usage_figure_absent:
  "map_of flds ''usage'' = None \<Longrightarrow> usage_figure (Obj flds) k = Inr (Num (Fin 0))"
  by (simp add: usage_figure_def get_prop_Obj own_def get_opt_prop_Undefined or_else_def truthy_def)

lemma usage_figure_present:
  "map_of flds ''usage'' = Some (Obj u) \<Longrightarrow>
   usage_figure (Obj flds) k = Inr (if truthy (own u k) then own u k else Num (Fin 0))"
  by (simp add: usage_figure_def get_prop_Obj own_def get_opt_prop_Obj or_else_def)



lemma none_returned_nonempty: "none_returned (Arr (x # xs)) = Inr False"
proof -
  have "(1 + rat_of_nat (length xs)) \<noteq> 0"
    by (metis of_nat_Suc of_nat_0_eq_iff nat.simps(3))
  then show ?thesis
    by (simp add: none_returned_def truthy_def get_prop_def strict_eq_num_def num_eq_def is_zero_def)
qed

lemma get_index_first: "get_index (Arr (x # xs)) 0 = Inr x"
  by (simp add: get_index_def)

lemma generateEmbedding_ok:
  assumes "fetcher ctx (embeddings_request JSON_stringify text model) = Inr resp"
    and "status resp = 200"
    and "response_body resp = Obj flds"
    and "map_of flds ''data'' = Some (Arr (Obj e # es))"
    and "ToString (own e ''index'') = Inr ident"
    and "usage_figure (Obj flds) ''prompt_tokens'' = Inr promptTokens"
    and "usage_figure (Obj flds) ''total_tokens'' = Inr totalTokens"
  shows "generateEmbedding JSON_stringify text model ctx =
     Inr (Obj
       [(''id'', Str ident),
        (''input'', Str text),
        (''embedding'', own e ''embedding''),
        (''formatted'', Str ''Embedding Object''),
        (''model'', own flds ''model''),
        (''prompt_tokens'', promptTokens),
        (''total_tokens'', totalTokens)])"
proof -
  have d: "own flds ''data'' = Arr (Obj e # es)"
    using assms(4) by (simp add: own_def)
  show ?thesis
    using assms(1,2,3,5,6,7)
    by (simp add: generateEmbedding_def Let_def get_prop_Obj d none_returned_nonempty get_index_first build_record_def)
qed




text \<open>
  C1. A response with status 200 whose body is an object with a non-empty \<open>data\<close> list,
  the first entry \<open>e\<close> of which is an object: the result is the record with \<open>id\<close> the
  string conversion of \<open>e.index\<close>, \<open>input\<close> the text argument, \<open>embedding\<close> the value of
  \<open>e.embedding\<close>, \<open>formatted\<close> the constant "Embedding Object", \<open>model\<close> the body's
  \<open>model\<close>, and the two token counts taken from the body's \<open>usage\<close> block, 0 when the
  block is absent.  No later entry of the list appears in it.
\<close>

theorem generateEmbedding_builds_record:
  assumes "fetcher ctx (embeddings_request JSON_stringify text model) = Inr resp"
    and "status resp = 200"
    and "response_body resp = Obj flds"
    and "map_of flds ''data'' = Some (Arr (Obj e # es))"
    and "ToString (own e ''index'') = Inr ident"
  shows "\<exists>promptTokens totalTokens.
           generateEmbedding JSON_stringify text model ctx =
             Inr (Obj
               [(''id'', Str ident),
                (''input'', Str text),
                (''embedding'', own e ''embedding''),
                (''formatted'', Str ''Embedding Object''),
                (''model'', own flds ''model''),
                (''prompt_tokens'', promptTokens),
                (''total_tokens'', totalTokens)]) \<and>
           (map_of flds ''usage'' = None \<longrightarrow>
              promptTokens = Num (Fin 0) \<and> totalTokens = Num (Fin 0)) \<and>
           (\<forall>u p. map_of flds ''usage'' = Some (Obj u) \<and>
                  map_of u ''prompt_tokens'' = Some p \<and> truthy p \<longrightarrow> promptTokens = p) \<and>
           (\<forall>u t. map_of flds ''usage'' = Some (Obj u) \<and>
                  map_of u ''total_tokens'' = Some t \<and> truthy t \<longrightarrow> totalTokens = t)"
proof -
  obtain pt where pt: "usage_figure (Obj flds) ''prompt_tokens'' = Inr pt"
    using usage_figure_total by blast
  obtain tt where tt: "usage_figure (Obj flds) ''total_tokens'' = Inr tt"
    using usage_figure_total by blast
  have absent: "map_of flds ''usage'' = None \<longrightarrow> pt = Num (Fin 0) \<and> tt = Num (Fin 0)"
    using pt tt usage_figure_absent [of flds] by auto
  have prompt: "\<forall>u p. map_of flds ''usage'' = Some (Obj u) \<and>
                  map_of u ''prompt_tokens'' = Some p \<and> truthy p \<longrightarrow> pt = p"
    using pt usage_figure_present [of flds _ "''prompt_tokens''"] by (auto simp: own_def)
  have total: "\<forall>u t. map_of flds ''usage'' = Some (Obj u) \<and>
                  map_of u ''total_tokens'' = Some t \<and> truthy t \<longrightarrow> tt = t"
    using tt usage_figure_present [of flds _ "''total_tokens''"] by (auto simp: own_def)
  show ?thesis
  proof (intro exI conjI)
    show "generateEmbedding JSON_stringify text model ctx =
             Inr (Obj
               [(''id'', Str ident),
                (''input'', Str text),
                (''embedding'', own e ''embedding''),
                (''formatted'', Str ''Embedding Object''),
                (''model'', own flds ''model''),
                (''prompt_tokens'', pt),
                (''total_tokens'', tt)])"
      by (rule generateEmbedding_ok [OF assms pt tt])
  qed (use absent prompt total in blast)+
qed

theorem generateEmbedding_builds_record_witness:
  "generateEmbedding (\<lambda>v. ''{}'') ''hello world'' ''text-embedding-3-small''
     \<lparr>fetcher = (\<lambda>req. Inr \<lparr>status = 200, response_body = Obj
        [(''data'', Arr [Obj
           [(''index'', Num (Fin 0)),
            (''embedding'', Arr
               [Num (Fin (3602879701896397 / 36028797018963968)),
                Num (Fin (3602879701896397 / 18014398509481984)),
                Num (Fin (5404319552844595 / 18014398509481984))])]]),
         (''model'', Str ''text-embedding-3-small''),
         (''usage'', Obj [(''prompt_tokens'', Num (Fin 2)), (''total_tokens'', Num (Fin 2))])]\<rparr>)\<rparr> =
   Inr (Obj
     [(''id'', Str ''0''),
      (''input'', Str ''hello world''),
      (''embedding'', Arr
         [Num (Fin (3602879701896397 / 36028797018963968)),
          Num (Fin (3602879701896397 / 18014398509481984)),
          Num (Fin (5404319552844595 / 18014398509481984))]),
      (''formatted'', Str ''Embedding Object''),
      (''model'', Str ''text-embedding-3-small''),
      (''prompt_tokens'', Num (Fin 2)),
      (''total_tokens'', Num (Fin 2))])"
  using generateEmbedding_builds_record
    [of "\<lparr>fetcher = (\<lambda>req. Inr \<lparr>status = 200, response_body = Obj
        [(''data'', Arr [Obj
           [(''index'', Num (Fin 0)),
            (''embedding'', Arr
               [Num (Fin (3602879701896397 / 36028797018963968)),
                Num (Fin (3602879701896397 / 18014398509481984)),
                Num (Fin (5404319552844595 / 18014398509481984))])]]),
         (''model'', Str ''text-embedding-3-small''),
         (''usage'', Obj [(''prompt_tokens'', Num (Fin 2)), (''total_tokens'', Num (Fin 2))])]\<rparr>)\<rparr>"
        "\<lambda>v. ''{}''" "''hello world''" "''text-embedding-3-small''"
        "\<lparr>status = 200, response_body = Obj
        [(''data'', Arr [Obj
           [(''index'', Num (Fin 0)),
            (''embedding'', Arr
               [Num (Fin (3602879701896397 / 36028797018963968)),
                Num (Fin (3602879701896397 / 18014398509481984)),
                Num (Fin (5404319552844595 / 18014398509481984))])]]),
         (''model'', Str ''text-embedding-3-small''),
         (''usage'', Obj [(''prompt_tokens'', Num (Fin 2)), (''total_tokens'', Num (Fin 2))])]\<rparr>"
        "[(''data'', Arr [Obj
           [(''index'', Num (Fin 0)),
            (''embedding'', Arr
               [Num (Fin (3602879701896397 / 36028797018963968)),
                Num (Fin (3602879701896397 / 18014398509481984)),
                Num (Fin (5404319552844595 / 18014398509481984))])]]),
         (''model'', Str ''text-embedding-3-small''),
         (''usage'', Obj [(''prompt_tokens'', Num (Fin 2)), (''total_tokens'', Num (Fin 2))])]"
        "[(''index'', Num (Fin 0)),
            (''embedding'', Arr
               [Num (Fin (3602879701896397 / 36028797018963968)),
                Num (Fin (3602879701896397 / 18014398509481984)),
                Num (Fin (5404319552844595 / 18014398509481984))])]"
        "[]" "''0''"]
  by (simp add: own_def NumberToString_def truthy_def is_zero_def)

text \<open>
  C10. With a \<open>usage\<close> block present: a count that is missing from the block, or whose
  value is falsy, is 0 in the record, each of the two counts on its own (\<open>own u k\<close> is the
  value of the block's field \<open>k\<close>, \<open>Undefined\<close> when the block has no such field).
\<close>

theorem generateEmbedding_token_default_per_field:
  assumes "fetcher ctx (embeddings_request JSON_stringify text model) = Inr resp"
    and "status resp = 200"
    and "response_body resp = Obj flds"
    and "map_of flds ''data'' = Some (Arr (Obj e # es))"
    and "ToString (own e ''index'') = Inr ident"
    and "map_of flds ''usage'' = Some (Obj u)"
  shows "\<exists>r. generateEmbedding JSON_stringify text model ctx = Inr (Obj r) \<and>
             (\<not> truthy (own u ''prompt_tokens'') \<longrightarrow>
                map_of r ''prompt_tokens'' = Some (Num (Fin 0))) \<and>
             (\<not> truthy (own u ''total_tokens'') \<longrightarrow>
                map_of r ''total_tokens'' = Some (Num (Fin 0)))"
proof -
  have pt: "usage_figure (Obj flds) ''prompt_tokens'' =
            Inr (if truthy (own u ''prompt_tokens'') then own u ''prompt_tokens'' else Num (Fin 0))"
    by (rule usage_figure_present [OF assms(6)])
  have tt: "usage_figure (Obj flds) ''total_tokens'' =
            Inr (if truthy (own u ''total_tokens'') then own u ''total_tokens'' else Num (Fin 0))"
    by (rule usage_figure_present [OF assms(6)])
  have "generateEmbedding JSON_stringify text model ctx = Inr (Obj
      [(''id'', Str ident),
       (''input'', Str text),
       (''embedding'', own e ''embedding''),
       (''formatted'', Str ''Embedding Object''),
       (''model'', own flds ''model''),
       (''prompt_tokens'',
          if truthy (own u ''prompt_tokens'') then own u ''prompt_tokens'' else Num (Fin 0)),
       (''total_tokens'',
          if truthy (own u ''total_tokens'') then own u ''total_tokens'' else Num (Fin 0))])"
    by (rule generateEmbedding_ok [OF assms(1-5) pt tt])
  then show ?thesis by simp
qed

theorem generateEmbedding_token_default_per_field_witness:
  "\<exists>r. generateEmbedding (\<lambda>v. ''{}'') ''hello world'' ''text-embedding-3-small''
       \<lparr>fetcher = (\<lambda>req. Inr \<lparr>status = 200, response_body = Obj
          [(''data'', Arr [Obj [(''index'', Num (Fin 0)), (''embedding'', Arr [Num (Fin 1)])]]),
           (''model'', Str ''text-embedding-3-small''),
           (''usage'', Obj [(''prompt_tokens'', Null)])]\<rparr>)\<rparr> = Inr (Obj r) \<and>
       map_of r ''prompt_tokens'' = Some (Num (Fin 0)) \<and>
       map_of r ''total_tokens'' = Some (Num (Fin 0))"
  using generateEmbedding_token_default_per_field
    [of "\<lparr>fetcher = (\<lambda>req. Inr \<lparr>status = 200, response_body = Obj
          [(''data'', Arr [Obj [(''index'', Num (Fin 0)), (''embedding'', Arr [Num (Fin 1)])]]),
           (''model'', Str ''text-embedding-3-small''),
           (''usage'', Obj [(''prompt_tokens'', Null)])]\<rparr>)\<rparr>"
        "\<lambda>v. ''{}''" "''hello world''" "''text-embedding-3-small''"
        "\<lparr>status = 200, response_body = Obj
          [(''data'', Arr [Obj [(''index'', Num (Fin 0)), (''embedding'', Arr [Num (Fin 1)])]]),
           (''model'', Str ''text-embedding-3-small''),
           (''usage'', Obj [(''prompt_tokens'', Null)])]\<rparr>"
        "[(''data'', Arr [Obj [(''index'', Num (Fin 0)), (''embedding'', Arr [Num (Fin 1)])]]),
           (''model'', Str ''text-embedding-3-small''),
           (''usage'', Obj [(''prompt_tokens'', Null)])]"
        "[(''index'', Num (Fin 0)), (''embedding'', Arr [Num (Fin 1)])]"
        "[]" "''0''" "[(''prompt_tokens'', Null)]"]
  by (simp add: own_def NumberToString_def truthy_def)



section \<open>CosineSimilarity: the value returned\<close>





lemma loop_folds:
  "n \<le> length a \<Longrightarrow> n \<le> length b \<Longrightarrow>
   fold (accumulate a b) [0 ..< n] (d, na, nb) =
     (fold (\<lambda>(x, y) acc. fl_add acc (fl_mul x y)) (zip (take n a) (take n b)) d,
      fold (\<lambda>x acc. fl_add acc (fl_mul x x)) (take n a) na,
      fold (\<lambda>x acc. fl_add acc (fl_mul x x)) (take n b) nb)"
proof (induction n)
  case 0
  then show ?case by simp
next
  case (Suc n)
  then have la: "n < length a" and lb: "n < length b" by simp_all
  have z: "zip (take (Suc n) a) (take (Suc n) b) = zip (take n a) (take n b) @ [(a ! n, b ! n)]"
    using la lb by (simp add: take_Suc_conv_app_nth)
  show ?case
    using Suc.IH la lb
    by (simp add: z take_Suc_conv_app_nth accumulate_def)
qed

lemma loop_result:
  "length a = length b \<Longrightarrow>
   fold (accumulate a b) [0 ..< length a] (Fin 0, Fin 0, Fin 0) =
     (dot_product a b, norm_squared a, norm_squared b)"
  using loop_folds [of "length a" a b "Fin 0" "Fin 0" "Fin 0"]
  by (simp add: dot_product_def norm_squared_def)

lemma CosineSimilarity_eq:
  "length a = length b \<Longrightarrow>
   CosineSimilarity a b =
     Inr (if num_eq (norm_squared a) (Fin 0) \<or> num_eq (norm_squared b) (Fin 0) then Fin 0
          else fl_div (dot_product a b)
                 (fl_mul (fl_sqrt (norm_squared a)) (fl_sqrt (norm_squared b))))"
proof -
  assume l: "length a = length b"
  show ?thesis
    unfolding CosineSimilarity_def loop_result [OF l] using l by simp
qed


lemma fl_mul_zero_self: "is_zero x \<Longrightarrow> fl_mul x x = Fin 0"
  by (auto simp: is_zero_def fl_mul_def is_inf_def val_def round_mag_def signed_zero_def)

lemma fl_add_zero_zero: "fl_add (Fin 0) (Fin 0) = Fin 0"
  by (simp add: fl_add_def is_inf_def val_def signed_zero_def is_neg_def)

lemma norm_squared_zeros:
  "\<forall>x \<in> set a. is_zero x \<Longrightarrow> norm_squared a = Fin 0"
proof -
  have "\<forall>x \<in> set a. is_zero x \<Longrightarrow> fold (\<lambda>x acc. fl_add acc (fl_mul x x)) a (Fin 0) = Fin 0"
    by (induction a) (simp_all add: fl_mul_zero_self fl_add_zero_zero)
  then show "\<forall>x \<in> set a. is_zero x \<Longrightarrow> norm_squared a = Fin 0"
    by (simp add: norm_squared_def)
qed


text \<open>
  C6. Two sequences of the same length, one of which has only zero entries (\<open>+0\<close> or
  \<open>-0\<close>: its Euclidean norm is exactly zero; the empty sequences are included): the
  result is the number \<open>+0\<close>, not NaN and not an error, whatever the other sequence
  holds.
\<close>

theorem CosineSimilarity_zero_norm:
  assumes "length a = length b"
    and "(\<forall>x \<in> set a. is_zero x) \<or> (\<forall>y \<in> set b. is_zero y)"
  shows "CosineSimilarity a b = Inr (Fin 0)"
proof -
  from assms(2) have "norm_squared a = Fin 0 \<or> norm_squared b = Fin 0"
    using norm_squared_zeros by blast
  then have "num_eq (norm_squared a) (Fin 0) \<or> num_eq (norm_squared b) (Fin 0)"
    by (auto simp: num_eq_def)
  then show ?thesis
    using CosineSimilarity_eq [OF assms(1)] by simp
qed

theorem CosineSimilarity_zero_norm_witness:
  "length [Fin 0, NegZero] = length [Fin 3, NaN] \<and>
   is_zero (Fin 0) \<and> is_zero NegZero \<and>
   CosineSimilarity [Fin 0, NegZero] [Fin 3, NaN] = Inr (Fin 0) \<and>
   CosineSimilarity [Fin 3, Fin 4] [Fin 0, Fin 0] = Inr (Fin 0) \<and>
   CosineSimilarity [] [] = Inr (Fin 0)"
  using CosineSimilarity_zero_norm [of "[Fin 0, NegZero]" "[Fin 3, NaN]"]
        CosineSimilarity_zero_norm [of "[Fin 3, Fin 4]" "[Fin 0, Fin 0]"]
        CosineSimilarity_zero_norm [of "[]" "[]"]
  by (simp add: is_zero_def)







end
